theory Spec2Isabelle
  imports Main "HOL-Library.AList"
begin

section \<open>JavaScript values\<close>

text \<open>
  The values the action creators and the serializer receive. A \<open>Date\<close> is the number of
  milliseconds it holds; the string that \<open>Date.prototype.toJSON\<close> returns for it is kept
  symbolic (\<open>JDateJSON\<close>), since no function here looks inside it. An \<open>Error\<close> is its
  name and its message. An object is the list of its own properties, in insertion order.
\<close>

datatype jsval =
    JUndefined
  | JNull
  | JBool bool
  | JNum int
  | JStr string
  | JDate nat
  | JDateJSON nat
  | JError string string
  | JArray "jsval list"
  | JObject "(string \<times> jsval) list"

text \<open>JavaScript's \<open>ToBoolean\<close>, as \<open>payload ? a : b\<close> and \<open>a || b\<close> use it.\<close>

fun truthy :: "jsval \<Rightarrow> bool" where
  "truthy JUndefined = False"
| "truthy JNull = False"
| "truthy (JBool b) = b"
| "truthy (JNum n) = (n \<noteq> 0)"
| "truthy (JStr s) = (s \<noteq> [])"
| "truthy (JDate d) = True"
| "truthy (JDateJSON d) = True"
| "truthy (JError n m) = True"
| "truthy (JArray xs) = True"
| "truthy (JObject kvs) = True"

text \<open>\<open>v instanceof Error\<close>.\<close>

fun instanceofError :: "jsval \<Rightarrow> bool" where
  "instanceofError (JError n m) = True"
| "instanceofError v = False"

text \<open>Property read \<open>v.k\<close> on an object; a missing property reads as \<open>undefined\<close>.\<close>

fun get_prop :: "jsval \<Rightarrow> string \<Rightarrow> jsval" where
  "get_prop (JObject kvs) k = (case map_of kvs k of Some v \<Rightarrow> v | None \<Rightarrow> JUndefined)"
| "get_prop v k = JUndefined"

text \<open>
  Object spread \<open>{...a, ...b}\<close>: the properties of \<open>b\<close> are written over those of \<open>a\<close>, a key
  already present keeping its place; spreading \<open>undefined\<close> adds nothing.
\<close>

definition spread :: "(string \<times> jsval) list \<Rightarrow> (string \<times> jsval) list option \<Rightarrow> (string \<times> jsval) list" where
  "spread a b = (case b of None \<Rightarrow> a | Some kvs \<Rightarrow> foldl (\<lambda>acc (k, v). AList.update k v acc) a kvs)"

text \<open>A template literal \<open>`${p}`\<close> on a \<open>string | undefined\<close>.\<close>

definition template :: "string option \<Rightarrow> string" where
  "template p = (case p of None \<Rightarrow> ''undefined'' | Some s \<Rightarrow> s)"

text \<open>\<open>p || d\<close> on a \<open>string | undefined\<close>: \<open>undefined\<close> and the empty string are falsy.\<close>

definition or_default :: "string option \<Rightarrow> string \<Rightarrow> string" where
  "or_default p d = (case p of None \<Rightarrow> d | Some s \<Rightarrow> if s = [] then d else s)"

section \<open>The action creators\<close>

text \<open>
  The module \<open>./actionTypes\<close> that both versions of the action creators import is not among
  the sources: its twelve string constants are a parameter of every creator.
\<close>

record actionTypes =
  DEFAULT_PREFIX :: string
  WEBSOCKET_BROKEN :: string
  WEBSOCKET_BEGIN_RECONNECT :: string
  WEBSOCKET_RECONNECT_ATTEMPT :: string
  WEBSOCKET_RECONNECTED :: string
  WEBSOCKET_CLOSED :: string
  WEBSOCKET_CONNECT :: string
  WEBSOCKET_DISCONNECT :: string
  WEBSOCKET_ERROR :: string
  WEBSOCKET_MESSAGE :: string
  WEBSOCKET_OPEN :: string
  WEBSOCKET_SEND :: string

text \<open>
  \<open>BuiltAction<T>\<close>, with the \<open>error\<close> key that \<open>buildAction\<close> mixes in. An optional key
  that is absent is \<open>None\<close>.
\<close>

record BuiltAction =
  type :: string
  meta :: "(string \<times> jsval) list"
  error :: "bool option"
  payload :: "jsval option"

text \<open>
  The rest arguments of \<open>connect\<close>: \<open>[] | [string] | [string[]] | [string[], string]\<close>.
\<close>

datatype ConnectRestArgs =
    NoRest
  | WithPrefix string
  | WithProtocols "string list" "string option"

fun args_length :: "ConnectRestArgs \<Rightarrow> nat" where
  "args_length NoRest = 0"
| "args_length (WithPrefix p) = 1"
| "args_length (WithProtocols ps None) = 1"
| "args_length (WithProtocols ps (Some p)) = 2"

subsection \<open>First version (src/unnamed/part_000)\<close>

text \<open>\<open>Array.isArray(args[0])\<close>.\<close>

fun isProtocols_000 :: "ConnectRestArgs \<Rightarrow> bool" where
  "isProtocols_000 (WithProtocols ps p) = True"
| "isProtocols_000 a = False"

text \<open>
  \<open>buildAction\<close>. The call \<open>new Date()\<close> reads the clock: the time read is the argument
  \<open>now\<close>. An omitted \<open>payload\<close> is \<open>JUndefined\<close>, an omitted \<open>meta\<close> is \<open>None\<close>.
\<close>

definition buildAction_000 :: "string \<Rightarrow> bool \<Rightarrow> jsval \<Rightarrow> (string \<times> jsval) list option \<Rightarrow> nat \<Rightarrow> BuiltAction" where
  "buildAction_000 actionType string_timestamp pl mt now =
     (let timestamp = (if string_timestamp then JDateJSON now else JDate now);
          base = \<lparr> type = actionType,
                   meta = spread [(''timestamp'', timestamp)] mt,
                   error = (if instanceofError pl then Some True else None),
                   payload = None \<rparr>
      in if truthy pl then base\<lparr> payload := Some pl \<rparr> else base)"

definition connect_000 :: "actionTypes \<Rightarrow> string \<Rightarrow> bool \<Rightarrow> ConnectRestArgs \<Rightarrow> nat \<Rightarrow> BuiltAction" where
  "connect_000 T u string_timestamp args now =
     (let (protocols1, prefix1) =
            (if args_length args = 1
             then (if isProtocols_000 args
                   then (case args of WithProtocols ps p \<Rightarrow> (Some ps, None) | _ \<Rightarrow> (None, None))
                   else (case args of WithPrefix p \<Rightarrow> (None, Some p) | _ \<Rightarrow> (None, None)))
             else (None, None));
          (protocols2, prefix2) =
            (if args_length args = 2
             then (case args of WithProtocols ps p \<Rightarrow> (Some ps, p) | _ \<Rightarrow> (protocols1, prefix1))
             else (protocols1, prefix1))
      in buildAction_000
           (or_default prefix2 (DEFAULT_PREFIX T) @ ''::'' @ WEBSOCKET_CONNECT T)
           string_timestamp
           (JObject [(''url'', JStr u),
                     (''protocols'', case protocols2 of None \<Rightarrow> JUndefined
                                     | Some ps \<Rightarrow> JArray (map JStr ps))])
           None now)"

definition disconnect_000 :: "actionTypes \<Rightarrow> bool \<Rightarrow> string option \<Rightarrow> nat \<Rightarrow> BuiltAction" where
  "disconnect_000 T string_timestamp pfx now =
     buildAction_000 (or_default pfx (DEFAULT_PREFIX T) @ ''::'' @ WEBSOCKET_DISCONNECT T)
       string_timestamp JUndefined None now"

definition send_000 :: "actionTypes \<Rightarrow> jsval \<Rightarrow> bool \<Rightarrow> string option \<Rightarrow> nat \<Rightarrow> BuiltAction" where
  "send_000 T msg string_timestamp pfx now =
     buildAction_000 (or_default pfx (DEFAULT_PREFIX T) @ ''::'' @ WEBSOCKET_SEND T)
       string_timestamp msg None now"

definition beginReconnect_000 :: "actionTypes \<Rightarrow> bool \<Rightarrow> string option \<Rightarrow> nat \<Rightarrow> BuiltAction" where
  "beginReconnect_000 T string_timestamp pfx now =
     buildAction_000 (template pfx @ ''::'' @ WEBSOCKET_BEGIN_RECONNECT T)
       string_timestamp JUndefined None now"

definition reconnectAttempt_000 :: "actionTypes \<Rightarrow> int \<Rightarrow> bool \<Rightarrow> string option \<Rightarrow> nat \<Rightarrow> BuiltAction" where
  "reconnectAttempt_000 T count string_timestamp pfx now =
     buildAction_000 (template pfx @ ''::'' @ WEBSOCKET_RECONNECT_ATTEMPT T)
       string_timestamp (JObject [(''count'', JNum count)]) None now"

definition reconnected_000 :: "actionTypes \<Rightarrow> bool \<Rightarrow> string option \<Rightarrow> nat \<Rightarrow> BuiltAction" where
  "reconnected_000 T string_timestamp pfx now =
     buildAction_000 (template pfx @ ''::'' @ WEBSOCKET_RECONNECTED T)
       string_timestamp JUndefined None now"

definition open_000 :: "actionTypes \<Rightarrow> jsval \<Rightarrow> bool \<Rightarrow> string option \<Rightarrow> nat \<Rightarrow> BuiltAction" where
  "open_000 T event string_timestamp pfx now =
     buildAction_000 (template pfx @ ''::'' @ WEBSOCKET_OPEN T)
       string_timestamp event None now"

definition broken_000 :: "actionTypes \<Rightarrow> bool \<Rightarrow> string option \<Rightarrow> nat \<Rightarrow> BuiltAction" where
  "broken_000 T string_timestamp pfx now =
     buildAction_000 (template pfx @ ''::'' @ WEBSOCKET_BROKEN T)
       string_timestamp JUndefined None now"

definition closed_000 :: "actionTypes \<Rightarrow> jsval \<Rightarrow> bool \<Rightarrow> string option \<Rightarrow> nat \<Rightarrow> BuiltAction" where
  "closed_000 T event string_timestamp pfx now =
     buildAction_000 (template pfx @ ''::'' @ WEBSOCKET_CLOSED T)
       string_timestamp event None now"

definition message_000 :: "actionTypes \<Rightarrow> jsval \<Rightarrow> bool \<Rightarrow> string option \<Rightarrow> nat \<Rightarrow> BuiltAction" where
  "message_000 T event string_timestamp pfx now =
     buildAction_000 (template pfx @ ''::'' @ WEBSOCKET_MESSAGE T)
       string_timestamp
       (JObject [(''event'', event),
                 (''message'', get_prop event ''data''),
                 (''origin'', get_prop event ''origin'')])
       None now"

text \<open>\<open>err\<close> is an \<open>Error\<close>: its name and its message.\<close>

definition error_000 :: "actionTypes \<Rightarrow> jsval \<Rightarrow> string \<times> string \<Rightarrow> bool \<Rightarrow> string option \<Rightarrow> nat \<Rightarrow> BuiltAction" where
  "error_000 T originalAction err string_timestamp pfx now =
     buildAction_000 (template pfx @ ''::'' @ WEBSOCKET_ERROR T)
       string_timestamp
       (JError (fst err) (snd err))
       (Some [(''message'', JStr (snd err)),
              (''name'', JStr (fst err)),
              (''originalAction'', originalAction)])
       now"

subsection \<open>Second version (src/unnamed/part_002)\<close>

fun isProtocols_002 :: "ConnectRestArgs \<Rightarrow> bool" where
  "isProtocols_002 (WithProtocols ps p) = True"
| "isProtocols_002 a = False"

text \<open>\<open>buildAction\<close>, with the clock and the omitted arguments as in the first version.\<close>

definition buildAction_002 :: "string \<Rightarrow> bool \<Rightarrow> jsval \<Rightarrow> (string \<times> jsval) list option \<Rightarrow> nat \<Rightarrow> BuiltAction" where
  "buildAction_002 actionType stringTimestamp pl mt now =
     (let timestamp = (if stringTimestamp then JDateJSON now else JDate now);
          base = \<lparr> type = actionType,
                   meta = spread [(''timestamp'', timestamp)] mt,
                   error = (if instanceofError pl then Some True else None),
                   payload = None \<rparr>
      in if truthy pl then base\<lparr> payload := Some pl \<rparr> else base)"

definition connect_002 :: "actionTypes \<Rightarrow> string \<Rightarrow> bool \<Rightarrow> ConnectRestArgs \<Rightarrow> nat \<Rightarrow> BuiltAction" where
  "connect_002 T u stringTimestamp args now =
     (let (protocols1, prefix1) =
            (if args_length args = 1
             then (if isProtocols_002 args
                   then (case args of WithProtocols ps p \<Rightarrow> (Some ps, None) | _ \<Rightarrow> (None, None))
                   else (case args of WithPrefix p \<Rightarrow> (None, Some p) | _ \<Rightarrow> (None, None)))
             else (None, None));
          (protocols2, prefix2) =
            (if args_length args = 2
             then (case args of WithProtocols ps p \<Rightarrow> (Some ps, p) | _ \<Rightarrow> (protocols1, prefix1))
             else (protocols1, prefix1))
      in buildAction_002
           (or_default prefix2 (DEFAULT_PREFIX T) @ ''::'' @ WEBSOCKET_CONNECT T)
           stringTimestamp
           (JObject [(''url'', JStr u),
                     (''protocols'', case protocols2 of None \<Rightarrow> JUndefined
                                     | Some ps \<Rightarrow> JArray (map JStr ps))])
           None now)"

definition disconnect_002 :: "actionTypes \<Rightarrow> bool \<Rightarrow> string option \<Rightarrow> nat \<Rightarrow> BuiltAction" where
  "disconnect_002 T stringTimestamp pfx now =
     buildAction_002 (or_default pfx (DEFAULT_PREFIX T) @ ''::'' @ WEBSOCKET_DISCONNECT T)
       stringTimestamp JUndefined None now"

definition send_002 :: "actionTypes \<Rightarrow> jsval \<Rightarrow> bool \<Rightarrow> string option \<Rightarrow> nat \<Rightarrow> BuiltAction" where
  "send_002 T msg stringTimestamp pfx now =
     buildAction_002 (or_default pfx (DEFAULT_PREFIX T) @ ''::'' @ WEBSOCKET_SEND T)
       stringTimestamp msg None now"

definition beginReconnect_002 :: "actionTypes \<Rightarrow> bool \<Rightarrow> string option \<Rightarrow> nat \<Rightarrow> BuiltAction" where
  "beginReconnect_002 T stringTimestamp pfx now =
     buildAction_002 (template pfx @ ''::'' @ WEBSOCKET_BEGIN_RECONNECT T)
       stringTimestamp JUndefined None now"

definition reconnectAttempt_002 :: "actionTypes \<Rightarrow> int \<Rightarrow> bool \<Rightarrow> string option \<Rightarrow> nat \<Rightarrow> BuiltAction" where
  "reconnectAttempt_002 T count stringTimestamp pfx now =
     buildAction_002 (template pfx @ ''::'' @ WEBSOCKET_RECONNECT_ATTEMPT T)
       stringTimestamp (JObject [(''count'', JNum count)]) None now"

definition reconnected_002 :: "actionTypes \<Rightarrow> bool \<Rightarrow> string option \<Rightarrow> nat \<Rightarrow> BuiltAction" where
  "reconnected_002 T stringTimestamp pfx now =
     buildAction_002 (template pfx @ ''::'' @ WEBSOCKET_RECONNECTED T)
       stringTimestamp JUndefined None now"

definition open_002 :: "actionTypes \<Rightarrow> jsval \<Rightarrow> bool \<Rightarrow> string option \<Rightarrow> nat \<Rightarrow> BuiltAction" where
  "open_002 T event stringTimestamp pfx now =
     buildAction_002 (template pfx @ ''::'' @ WEBSOCKET_OPEN T)
       stringTimestamp event None now"

definition broken_002 :: "actionTypes \<Rightarrow> bool \<Rightarrow> string option \<Rightarrow> nat \<Rightarrow> BuiltAction" where
  "broken_002 T stringTimestamp pfx now =
     buildAction_002 (template pfx @ ''::'' @ WEBSOCKET_BROKEN T)
       stringTimestamp JUndefined None now"

definition closed_002 :: "actionTypes \<Rightarrow> jsval \<Rightarrow> bool \<Rightarrow> string option \<Rightarrow> nat \<Rightarrow> BuiltAction" where
  "closed_002 T event stringTimestamp pfx now =
     buildAction_002 (template pfx @ ''::'' @ WEBSOCKET_CLOSED T)
       stringTimestamp event None now"

definition message_002 :: "actionTypes \<Rightarrow> jsval \<Rightarrow> bool \<Rightarrow> string option \<Rightarrow> nat \<Rightarrow> BuiltAction" where
  "message_002 T event stringTimestamp pfx now =
     buildAction_002 (template pfx @ ''::'' @ WEBSOCKET_MESSAGE T)
       stringTimestamp
       (JObject [(''event'', event),
                 (''message'', get_prop event ''data''),
                 (''origin'', get_prop event ''origin'')])
       None now"

definition error_002 :: "actionTypes \<Rightarrow> jsval \<Rightarrow> string \<times> string \<Rightarrow> bool \<Rightarrow> string option \<Rightarrow> nat \<Rightarrow> BuiltAction" where
  "error_002 T originalAction err stringTimestamp pfx now =
     buildAction_002 (template pfx @ ''::'' @ WEBSOCKET_ERROR T)
       stringTimestamp
       (JError (fst err) (snd err))
       (Some [(''message'', JStr (snd err)),
              (''name'', JStr (fst err)),
              (''originalAction'', originalAction)])
       now"


section \<open>The retry scheduler\<close>

text \<open>
  The payload of a connect command: \<open>payload.url\<close> and the optional \<open>payload.protocols\<close>.
\<close>

record ConnectPayload =
  url :: string
  protocols :: "string list option"

text \<open>
  Modelled from the spec: the retry operation that \<open>ReduxWebSocket\<close> holds in \<open>retrier\<close>
  comes from the package \<open>retry\<close>, which is not among the sources. The spec's section 4.1
  describes it as the RetryScheduler; its four states are these.
\<close>

datatype sched_state = Idle | Attempting | Stopped | Abandoned

text \<open>
  Modelled from the spec: the scheduler's data (section 3): the attempt count, the state
  and the backoff policy (minimum delay, maximum delay, the forever flag and, for a
  bounded policy, the configured maximum attempt count). The connect callback and the
  timeout given to \<open>attempt\<close> are kept, with one flag for the scheduled retry and one for
  the running attempt timer. The callback is the closure
  \<open>() => this.reliablyConnect({ dispatch }, { payload })\<close>: the payload it captured.
  Delays are not measured: a timer that is pending fires when the environment says so.
\<close>

record RetryScheduler =
  attemptCount :: nat
  state :: sched_state
  forever :: bool
  minTimeout :: nat
  maxTimeout :: nat
  maxAttempts :: "nat option"
  connectFn :: "ConnectPayload option"
  timeoutMs :: nat
  retryPending :: bool
  timeoutPending :: bool

text \<open>
  Modelled from the spec: \<open>retry.operation({ forever, maxTimeout, minTimeout })\<close> builds an
  idle scheduler with no attempt made and no maximum attempt count configured.
\<close>

definition operation :: "bool \<Rightarrow> nat \<Rightarrow> nat \<Rightarrow> RetryScheduler" where
  "operation fv maxT minT =
     \<lparr> attemptCount = 0, state = Idle, forever = fv, minTimeout = minT, maxTimeout = maxT,
       maxAttempts = None, connectFn = None, timeoutMs = 0,
       retryPending = False, timeoutPending = False \<rparr>"

text \<open>
  Modelled from the spec: \<open>reset()\<close> "clears attempt count and state back to idle" and
  cancels any pending scheduled retry and timeout callback (sections 4.1 and 5).
\<close>

definition reset :: "RetryScheduler \<Rightarrow> RetryScheduler" where
  "reset r = r\<lparr> attemptCount := 0, state := Idle, retryPending := False, timeoutPending := False \<rparr>"

text \<open>
  Modelled from the spec: \<open>stop()\<close> "marks the cycle as successfully concluded; cancels any
  pending timer".
\<close>

definition stop :: "RetryScheduler \<Rightarrow> RetryScheduler" where
  "stop r = r\<lparr> state := Stopped, retryPending := False, timeoutPending := False \<rparr>"

text \<open>
  Modelled from the spec: \<open>attempt(connectFn, { timeoutMs, onTimeout })\<close> "transitions to
  attempting, increments attempt count to 1" and starts the attempt timer; "calling
  attempt() while already attempting must first implicitly reset". The spec's immediate
  call of \<open>connectFn\<close> is made by the caller of this function, on the scheduler returned
  here.
\<close>

definition attempt :: "RetryScheduler \<Rightarrow> ConnectPayload \<Rightarrow> nat \<Rightarrow> RetryScheduler" where
  "attempt r fn ms =
     (let r0 = (if state r = Attempting then reset r else r)
      in r0\<lparr> attemptCount := 1, state := Attempting, connectFn := Some fn, timeoutMs := ms,
             timeoutPending := True \<rparr>)"

text \<open>Modelled from the spec: \<open>attempts()\<close> reads the attempt count.\<close>

definition attempts :: "RetryScheduler \<Rightarrow> nat" where
  "attempts r = attemptCount r"

text \<open>
  Modelled from the spec: whether the retry budget is exhausted: never with \<open>forever\<close>;
  otherwise once the configured maximum attempt count \<open>N\<close> has been used up, so that the
  \<open>(N+1)\<close>-th consecutive failure is the one refused.
\<close>

definition exhausted :: "RetryScheduler \<Rightarrow> bool" where
  "exhausted r =
     (if forever r then False
      else (case maxAttempts r of None \<Rightarrow> False | Some n \<Rightarrow> n < attemptCount r))"

text \<open>
  Modelled from the spec: \<open>retry(reason)\<close> "returns a boolean: true if another attempt will
  be scheduled (increments attempt count, ... and schedules connectFn again after that
  delay), false if the retry budget is exhausted"; after \<open>stop()\<close> it is a no-op until
  \<open>reset()\<close>, and a no-op schedules nothing, so it returns false.
\<close>

definition retry :: "RetryScheduler \<Rightarrow> string \<Rightarrow> bool \<times> RetryScheduler" where
  "retry r err =
     (if state r = Stopped \<or> state r = Abandoned then (False, r)
      else if exhausted r then (False, r\<lparr> state := Abandoned, retryPending := False \<rparr>)
      else (True, r\<lparr> attemptCount := Suc (attemptCount r), state := Attempting,
                     retryPending := True \<rparr>))"

text \<open>
  Modelled from the spec: the scheduled retry fires: if one is pending, it is consumed and
  the connect callback is handed back to be called.
\<close>

definition retry_timer :: "RetryScheduler \<Rightarrow> ConnectPayload option \<times> RetryScheduler" where
  "retry_timer r =
     (if retryPending r then (connectFn r, r\<lparr> retryPending := False \<rparr>) else (None, r))"

text \<open>
  Modelled from the spec: the attempt timer fires: if it is pending (the attempt was not
  stopped in time), it is consumed and \<open>onTimeout\<close> is to be called.
\<close>

definition attempt_timer :: "RetryScheduler \<Rightarrow> bool \<times> RetryScheduler" where
  "attempt_timer r =
     (if timeoutPending r then (True, r\<lparr> timeoutPending := False \<rparr>) else (False, r))"

section \<open>The connection manager (src/src/ReduxWebSocket.ts)\<close>

text \<open>
  A socket is the handle \<open>new WebSocket\<close> returned: the \<open>n\<close>-th socket created is \<open>n\<close>. The
  consumer's \<open>onOpen\<close> callback is named by a string.
\<close>

type_synonym sock = nat

type_synonym hook = string

datatype open_event = OpenEvent

datatype close_event = CloseEvent (ce_code: nat) (ce_reason: string)

datatype message_event = MessageEvent (me_data: string) (me_origin: string)

text \<open>\<open>new Error(message)\<close>.\<close>

datatype js_error = Error string

text \<open>
  Modelled from the spec: the module \<open>./actions\<close> that \<open>ReduxWebSocket.ts\<close> imports (the
  version whose creators take the prefix as their last argument and that exports
  \<open>reconnectAbandoned\<close>) is not among the sources. A notification is the creator called
  and its arguments, named after the spec's event names (section 6).
\<close>

datatype notification =
    BeginReconnect string
  | ReconnectAttempt int string
  | Reconnected string
  | ReconnectAbandoned string
  | Open open_event string
  | Broken string
  | Closed close_event string
  | Message message_event string
  | ErrorAction jsval js_error string

text \<open>The calls on the retrier, logged so that their place among the other effects shows.\<close>

datatype retrier_call = RStop | RReset | RAttempt nat | RRetry js_error

text \<open>
  What a method does to the world outside the manager, in the order it does it:
  \<open>dispatch(a)\<close>, \<open>new WebSocket(url, protocols)\<close> (with the handle it returned),
  \<open>socket.close(code, reason)\<close>, \<open>socket.send(data)\<close>, the \<open>onOpen\<close> hook called with a
  socket, a call on the retrier, \<open>console.log\<close>, and an exception reaching the caller.
\<close>

datatype effect =
    Dispatch notification
  | NewWebSocket sock string "string list option"
  | WsClose sock nat string
  | WsSend sock string
  | OnOpen hook sock
  | Retrier retrier_call
  | ConsoleLog string
  | Throw js_error

record ReduxWebSocketOptions =
  prefix :: string
  reconnectInterval :: int
  reconnectOnClose :: bool
  onOpen :: "hook option"
  serializer :: "(jsval \<Rightarrow> string) option"

text \<open>
  The fields of the class; \<open>nextSocket\<close> is the model's own: the handle the next
  \<open>new WebSocket\<close> returns.
\<close>

record ReduxWebSocket =
  options :: ReduxWebSocketOptions
  websocket :: "sock option"
  reconnectCount :: int
  hasOpened :: bool
  retrier :: RetryScheduler
  nextSocket :: nat

definition constructor :: "ReduxWebSocketOptions \<Rightarrow> ReduxWebSocket" where
  "constructor opts =
     \<lparr> options = opts, websocket = None, reconnectCount = 0, hasOpened = False,
       retrier = operation True 1000 1000, nextSocket = 0 \<rparr>"

text \<open>\<open>code || 1000\<close> and \<open>reason || '...'\<close> on optional arguments.\<close>

definition code_or :: "nat option \<Rightarrow> nat \<Rightarrow> nat" where
  "code_or c d = (case c of None \<Rightarrow> d | Some n \<Rightarrow> if n = 0 then d else n)"

definition close :: "ReduxWebSocket \<Rightarrow> nat option \<Rightarrow> string option \<Rightarrow> ReduxWebSocket \<times> effect list" where
  "close s code reason =
     (case websocket s of
        None \<Rightarrow> (s, [])
      | Some ws \<Rightarrow>
          (s\<lparr> retrier := stop (retrier s), websocket := None, hasOpened := False \<rparr>,
           [Retrier RStop,
            WsClose ws (code_or code 1000)
              (or_default reason ''WebSocket connection closed by redux-websocket.'')]))"

definition reliablyConnect :: "ReduxWebSocket \<Rightarrow> ConnectPayload \<Rightarrow> ReduxWebSocket \<times> effect list" where
  "reliablyConnect s pl =
     (let pfx = prefix (options s);
          retries = int (attempts (retrier s)) - 1;
          announce =
            (if retries \<noteq> 0
             then (if retries = 1 then [Dispatch (BeginReconnect pfx)] else [])
                  @ [Dispatch (ReconnectAttempt retries pfx)]
             else []);
          ws = nextSocket s
      in (s\<lparr> websocket := Some ws, nextSocket := Suc ws \<rparr>,
          announce @ [NewWebSocket ws (url pl) (protocols pl)]))"

definition connect :: "ReduxWebSocket \<Rightarrow> ConnectPayload \<Rightarrow> ReduxWebSocket \<times> effect list" where
  "connect s pl =
     (let (s1, e1) = close s None None;
          s2 = s1\<lparr> retrier := reset (retrier s1) \<rparr>;
          s3 = s2\<lparr> retrier := attempt (retrier s2) pl 3000 \<rparr>;
          (s4, e4) = reliablyConnect s3 pl
      in (s4, [ConsoleLog ''Top of connect''] @ e1
              @ [Retrier RReset, Retrier (RAttempt 3000)] @ e4))"

definition onTimeout :: "ReduxWebSocket \<Rightarrow> ReduxWebSocket \<times> effect list" where
  "onTimeout s =
     (s, [ConsoleLog ''Websocket connection timed out'']
         @ (case websocket s of None \<Rightarrow> [] | Some ws \<Rightarrow> [WsClose ws 1000 ''client-side timeout'']))"

definition attemptReconnection :: "ReduxWebSocket \<Rightarrow> string \<Rightarrow> ReduxWebSocket \<times> effect list" where
  "attemptReconnection s reason =
     (let pfx = prefix (options s);
          err = ''Websocket closed: '' @ reason;
          (again, r) = retry (retrier s) err;
          s1 = s\<lparr> retrier := r \<rparr>
      in if again
         then (s1, [Retrier (RRetry (Error err)), Dispatch (Broken pfx)])
         else (s1, [Retrier (RRetry (Error err)), Dispatch (ReconnectAbandoned pfx)]))"

definition disconnect :: "ReduxWebSocket \<Rightarrow> js_error + ReduxWebSocket \<times> effect list" where
  "disconnect s =
     (case websocket s of
        Some ws \<Rightarrow> Inr (close s None None)
      | None \<Rightarrow> Inl (Error ''Socket connection not initialized. Dispatch WEBSOCKET_CONNECT first''))"

definition send :: "ReduxWebSocket \<Rightarrow> jsval \<Rightarrow> js_error + ReduxWebSocket \<times> effect list" where
  "send s pl =
     (case websocket s of
        Some ws \<Rightarrow>
          (case serializer (options s) of
             Some f \<Rightarrow> Inr (s, [WsSend ws (f pl)])
           | None \<Rightarrow> Inl (Error ''Serializer not provided''))
      | None \<Rightarrow> Inl (Error ''Socket connection not initialized. Dispatch WEBSOCKET_CONNECT first''))"

definition handleClose :: "ReduxWebSocket \<Rightarrow> string \<Rightarrow> close_event \<Rightarrow> ReduxWebSocket \<times> effect list" where
  "handleClose s pfx event = (s, [Dispatch (Closed event pfx)])"

definition handleError :: "ReduxWebSocket \<Rightarrow> string \<Rightarrow> ReduxWebSocket \<times> effect list" where
  "handleError s pfx = (s, [Dispatch (ErrorAction JNull (Error ''`redux-websocket` error'') pfx)])"

definition handleOpen :: "ReduxWebSocket \<Rightarrow> string \<Rightarrow> hook option \<Rightarrow> open_event \<Rightarrow> ReduxWebSocket \<times> effect list" where
  "handleOpen s pfx hk event =
     (let s1 = s\<lparr> retrier := stop (retrier s) \<rparr>;
          s2 = s1\<lparr> retrier := reset (retrier s1) \<rparr>;
          e_reconnected = (if hasOpened s2 then [Dispatch (Reconnected pfx)] else []);
          e_hook = (case hk of
                      None \<Rightarrow> []
                    | Some h \<Rightarrow> (case websocket s2 of None \<Rightarrow> [] | Some ws \<Rightarrow> [OnOpen h ws]))
      in (s2\<lparr> hasOpened := True \<rparr>,
          [Retrier RStop, Retrier RReset] @ e_reconnected @ e_hook
          @ [Dispatch (Open event pfx)]))"

definition handleMessage :: "ReduxWebSocket \<Rightarrow> string \<Rightarrow> message_event \<Rightarrow> ReduxWebSocket \<times> effect list" where
  "handleMessage s pfx event = (s, [Dispatch (Message event pfx)])"

text \<open>
  The four listeners that \<open>reliablyConnect\<close> registers on the socket it creates. They
  close over \<open>prefix\<close>, read from \<open>this.options\<close> when the socket was created;
  \<open>options\<close> is assigned in the constructor only, so that is the prefix of the state.
\<close>

definition closeListener :: "ReduxWebSocket \<Rightarrow> close_event \<Rightarrow> ReduxWebSocket \<times> effect list" where
  "closeListener s event =
     (let (s1, e1) = handleClose s (prefix (options s)) event;
          (s2, e2) = attemptReconnection s1 (ce_reason event)
      in (s2, e1 @ e2))"

definition errorListener :: "ReduxWebSocket \<Rightarrow> ReduxWebSocket \<times> effect list" where
  "errorListener s = handleError s (prefix (options s))"

definition openListener :: "ReduxWebSocket \<Rightarrow> open_event \<Rightarrow> ReduxWebSocket \<times> effect list" where
  "openListener s event = handleOpen s (prefix (options s)) (onOpen (options s)) event"

definition messageListener :: "ReduxWebSocket \<Rightarrow> message_event \<Rightarrow> ReduxWebSocket \<times> effect list" where
  "messageListener s event = handleMessage s (prefix (options s)) event"

section \<open>The event loop\<close>

text \<open>
  What can happen to a manager: one of the three commands, a native event of a socket, or
  one of the scheduler's two timers firing. Everything runs on one event loop, one event
  after the other.
\<close>

datatype event =
    CONNECT ConnectPayload
  | DISCONNECT
  | SEND jsval
  | NativeOpen sock open_event
  | NativeClose sock close_event
  | NativeError sock
  | NativeMessage sock message_event
  | RetryTimer
  | AttemptTimer

text \<open>
  One event. A native event reaches the manager only through the listeners of a socket
  that \<open>reliablyConnect\<close> created; the listeners are never removed, so a socket the
  manager no longer holds still reaches it. An exception leaves the state as the
  failing method left it, which for \<open>disconnect\<close> and \<open>send\<close> is untouched.
\<close>

fun step :: "ReduxWebSocket \<Rightarrow> event \<Rightarrow> ReduxWebSocket \<times> effect list" where
  "step s (CONNECT pl) = connect s pl"
| "step s DISCONNECT = (case disconnect s of Inl e \<Rightarrow> (s, [Throw e]) | Inr r \<Rightarrow> r)"
| "step s (SEND pl) = (case send s pl of Inl e \<Rightarrow> (s, [Throw e]) | Inr r \<Rightarrow> r)"
| "step s (NativeOpen ws ev) = (if ws < nextSocket s then openListener s ev else (s, []))"
| "step s (NativeClose ws ev) = (if ws < nextSocket s then closeListener s ev else (s, []))"
| "step s (NativeError ws) = (if ws < nextSocket s then errorListener s else (s, []))"
| "step s (NativeMessage ws ev) = (if ws < nextSocket s then messageListener s ev else (s, []))"
| "step s RetryTimer =
     (case retry_timer (retrier s) of
        (Some pl, r) \<Rightarrow> reliablyConnect (s\<lparr> retrier := r \<rparr>) pl
      | (None, r) \<Rightarrow> (s\<lparr> retrier := r \<rparr>, []))"
| "step s AttemptTimer =
     (case attempt_timer (retrier s) of
        (True, r) \<Rightarrow> onTimeout (s\<lparr> retrier := r \<rparr>)
      | (False, r) \<Rightarrow> (s\<lparr> retrier := r \<rparr>, []))"

fun run :: "ReduxWebSocket \<Rightarrow> event list \<Rightarrow> ReduxWebSocket \<times> effect list" where
  "run s [] = (s, [])"
| "run s (e # es) =
     (let (s1, o1) = step s e;
          (s2, o2) = run s1 es
      in (s2, o1 @ o2))"

text \<open>The notifications among the effects, in order.\<close>

fun dispatched :: "effect list \<Rightarrow> notification list" where
  "dispatched [] = []"
| "dispatched (Dispatch n # es) = n # dispatched es"
| "dispatched (e # es) = dispatched es"


section \<open>Notions used in the statements\<close>






fun is_ReconnectAbandoned :: "notification \<Rightarrow> bool" where
  "is_ReconnectAbandoned (ReconnectAbandoned p) = True"
| "is_ReconnectAbandoned n = False"

text \<open>
  The events of a connection that keeps failing: a socket closes or reports an error, or
  one of the two timers fires. No command and no open is among them.
\<close>

fun failure_event :: "event \<Rightarrow> bool" where
  "failure_event (NativeClose ws ev) = True"
| "failure_event (NativeError ws) = True"
| "failure_event RetryTimer = True"
| "failure_event AttemptTimer = True"
| "failure_event e = False"

fun is_CONNECT :: "event \<Rightarrow> bool" where
  "is_CONNECT (CONNECT pl) = True"
| "is_CONNECT e = False"

text \<open>
  A deliberate close: the disconnect command, or a connect command that replaces the
  socket the manager holds.
\<close>

definition deliberate_close :: "ReduxWebSocket \<Rightarrow> event \<Rightarrow> bool" where
  "deliberate_close s e = (websocket s \<noteq> None \<and> (e = DISCONNECT \<or> is_CONNECT e))"

text \<open>The two errors of the command surface, by the message the source gives them.\<close>

definition not_initialized :: js_error where
  "not_initialized = Error ''Socket connection not initialized. Dispatch WEBSOCKET_CONNECT first''"

definition no_serializer :: js_error where
  "no_serializer = Error ''Serializer not provided''"

text \<open>\<open>precedes a b xs\<close>: some \<open>b\<close> comes after the first \<open>a\<close> of \<open>xs\<close>.\<close>

fun precedes :: "'a \<Rightarrow> 'a \<Rightarrow> 'a list \<Rightarrow> bool" where
  "precedes a b [] = False"
| "precedes a b (x # xs) = (if x = a then b \<in> set xs else precedes a b xs)"

text \<open>The scheduler is in a cycle that cannot be abandoned.\<close>

definition retrying :: "ReduxWebSocket \<Rightarrow> bool" where
  "retrying s = (forever (retrier s) \<and> state (retrier s) = Attempting)"


subsection \<open>Concrete inputs\<close>

definition example_options :: ReduxWebSocketOptions where
  "example_options =
     \<lparr> prefix = ''REDUX_WEBSOCKET'', reconnectInterval = 2000, reconnectOnClose = True,
       onOpen = Some ''hook'', serializer = None \<rparr>"

fun example_serializer :: "jsval \<Rightarrow> string" where
  "example_serializer (JStr t) = t"
| "example_serializer v = ''null''"

definition example_payload :: ConnectPayload where
  "example_payload = \<lparr> url = ''wss://x'', protocols = None \<rparr>"

text \<open>
  Modelled from the spec: a value for the constants of the missing \<open>./actionTypes\<close>: the
  event names as the spec's section 6 lists them, and one fixed default prefix.
\<close>

definition example_actionTypes :: actionTypes where
  "example_actionTypes =
     \<lparr> DEFAULT_PREFIX = ''REDUX_WEBSOCKET'',
       WEBSOCKET_BROKEN = ''BROKEN'',
       WEBSOCKET_BEGIN_RECONNECT = ''BEGIN_RECONNECT'',
       WEBSOCKET_RECONNECT_ATTEMPT = ''RECONNECT_ATTEMPT'',
       WEBSOCKET_RECONNECTED = ''RECONNECTED'',
       WEBSOCKET_CLOSED = ''CLOSED'',
       WEBSOCKET_CONNECT = ''CONNECT'',
       WEBSOCKET_DISCONNECT = ''DISCONNECT'',
       WEBSOCKET_ERROR = ''ERROR'',
       WEBSOCKET_MESSAGE = ''MESSAGE'',
       WEBSOCKET_OPEN = ''OPEN'',
       WEBSOCKET_SEND = ''SEND'' \<rparr>"

section \<open>Runs\<close>

lemma dispatched_append: "dispatched (xs @ ys) = dispatched xs @ dispatched ys"
  by (induction xs rule: dispatched.induct) simp_all

lemma run_append:
  "run s (es @ es') =
     (fst (run (fst (run s es)) es'), snd (run s es) @ snd (run (fst (run s es)) es'))"
  by (induction es arbitrary: s) (simp_all add: split_beta Let_def)

lemma run_snoc_state: "fst (run s (es @ [e])) = fst (step (fst (run s es)) e)"
  by (simp add: run_append split_beta Let_def)


lemma connect_dispatched: "dispatched (snd (connect s pl)) = []"
  by (simp add: connect_def close_def reliablyConnect_def attempt_def attempts_def reset_def
      stop_def Let_def split_beta dispatched_append split: option.splits)

lemma retry_retrying:
  "forever r \<Longrightarrow> state r = Attempting \<Longrightarrow>
   retry r err =
     (True, r\<lparr> attemptCount := Suc (attemptCount r), state := Attempting, retryPending := True \<rparr>)"
  by (simp add: retry_def exhausted_def)


section \<open>The reconnection decision\<close>

text \<open>
  Claim C4. Every call of \<open>attemptReconnection\<close> with a reason calls \<open>retrier.retry\<close> once,
  with the error built from that reason, and keeps the scheduler that call leaves. If
  the call returned true, the one notification dispatched is BROKEN; if it returned
  false, the one notification dispatched is RECONNECT_ABANDONED. Nothing else is done.
\<close>

theorem attemptReconnection_decides:
  "attemptReconnection s reason =
     (s\<lparr> retrier := snd (retry (retrier s) (''Websocket closed: '' @ reason)) \<rparr>,
      [Retrier (RRetry (Error (''Websocket closed: '' @ reason))),
       Dispatch (if fst (retry (retrier s) (''Websocket closed: '' @ reason))
                 then Broken (prefix (options s))
                 else ReconnectAbandoned (prefix (options s)))])"
  by (simp add: attemptReconnection_def Let_def split_beta)

text \<open>
  The two branches at work: a manager that has just received a connect command is told
  its socket closed and declares the connection broken; after a disconnect command the
  scheduler is stopped, and the same call gives the reconnection up.
\<close>

theorem attemptReconnection_decides_witness:
  "snd (attemptReconnection (fst (connect (constructor example_options) example_payload)) ''refused'')
     = [Retrier (RRetry (Error ''Websocket closed: refused'')),
        Dispatch (Broken ''REDUX_WEBSOCKET'')]
   \<and> snd (attemptReconnection
            (fst (run (constructor example_options) [CONNECT example_payload, DISCONNECT]))
            ''refused'')
     = [Retrier (RRetry (Error ''Websocket closed: refused'')),
        Dispatch (ReconnectAbandoned ''REDUX_WEBSOCKET'')]"
  using attemptReconnection_decides
          [of "fst (connect (constructor example_options) example_payload)" "''refused''"]
        attemptReconnection_decides
          [of "fst (run (constructor example_options) [CONNECT example_payload, DISCONNECT])"
              "''refused''"]
  by (simp add: constructor_def operation_def example_options_def example_payload_def
      connect_def close_def reset_def stop_def attempt_def reliablyConnect_def disconnect_def
      retry_def exhausted_def code_or_def or_default_def Let_def split_beta)


section \<open>Announcing a retry\<close>

















section \<open>A connection that keeps failing\<close>

lemma connect_retrying: "forever (retrier s) \<Longrightarrow> retrying (fst (connect s pl))"
  by (simp add: connect_def close_def reliablyConnect_def retrying_def attempt_def reset_def
      stop_def Let_def split_beta split: option.splits)

lemma step_failure_retrying:
  "retrying s \<Longrightarrow> failure_event e \<Longrightarrow> retrying (fst (step s e))"
  by (cases e)
     (auto simp: retrying_def closeListener_def handleClose_def attemptReconnection_def
        retry_retrying errorListener_def handleError_def retry_timer_def attempt_timer_def
        reliablyConnect_def onTimeout_def Let_def split_beta split: option.splits)

lemma step_failure_no_abandoned:
  "retrying s \<Longrightarrow> failure_event e \<Longrightarrow>
   filter is_ReconnectAbandoned (dispatched (snd (step s e))) = []"
  by (cases e)
     (auto simp: retrying_def closeListener_def handleClose_def attemptReconnection_def
        retry_retrying errorListener_def handleError_def retry_timer_def attempt_timer_def
        reliablyConnect_def onTimeout_def Let_def split_beta dispatched_append
        split: option.splits)

lemma run_failure_retrying:
  "retrying s \<Longrightarrow> list_all failure_event es \<Longrightarrow> retrying (fst (run s es))"
  by (induction es arbitrary: s) (simp_all add: split_beta Let_def step_failure_retrying)

lemma run_failure_no_abandoned:
  "retrying s \<Longrightarrow> list_all failure_event es \<Longrightarrow>
   filter is_ReconnectAbandoned (dispatched (snd (run s es))) = []"
  by (induction es arbitrary: s)
     (simp_all add: split_beta Let_def step_failure_retrying step_failure_no_abandoned
        dispatched_append)

lemma close_retrying_count:
  "retrying s \<Longrightarrow> ws < nextSocket s \<Longrightarrow>
   attemptCount (retrier (fst (step s (NativeClose ws ev)))) = Suc (attemptCount (retrier s))"
  by (simp add: retrying_def closeListener_def handleClose_def attemptReconnection_def
        retry_retrying Let_def split_beta)

lemma failure_count_mono:
  "failure_event e \<Longrightarrow> attemptCount (retrier s) \<le> attemptCount (retrier (fst (step s e)))"
  by (cases e)
     (auto simp: closeListener_def handleClose_def attemptReconnection_def retry_def
        errorListener_def handleError_def retry_timer_def attempt_timer_def
        reliablyConnect_def onTimeout_def Let_def split_beta split: option.splits)

text \<open>
  Claim C3. Take a manager whose scheduler retries forever, as the constructor builds
  it, a connect command, and after it any events of a failing connection (sockets
  closing or erring, the two timers firing). No RECONNECT_ABANDONED is dispatched
  anywhere in that run; the close of a socket the manager created then raises the
  scheduler's attempt count by exactly one, and no other such event lowers it: the
  count is strictly increasing across the closes.
\<close>

theorem forever_never_abandons:
  assumes "forever (retrier s)"
    and "list_all failure_event es"
    and "ws < nextSocket (fst (run s (CONNECT pl # es)))"
    and "failure_event e"
  shows "filter is_ReconnectAbandoned (dispatched (snd (run s (CONNECT pl # es)))) = []
       \<and> attemptCount (retrier (fst (run s (CONNECT pl # es @ [NativeClose ws ev]))))
           = Suc (attemptCount (retrier (fst (run s (CONNECT pl # es)))))
       \<and> attemptCount (retrier (fst (run s (CONNECT pl # es))))
           \<le> attemptCount (retrier (fst (run s (CONNECT pl # es @ [e]))))"
proof -
  let ?s0 = "fst (connect s pl)"
  let ?s1 = "fst (run ?s0 es)"
  have r0: "retrying ?s0"
    using assms(1) by (rule connect_retrying)
  have st: "fst (run s (CONNECT pl # es)) = ?s1"
    by (simp add: split_beta Let_def)
  have out: "dispatched (snd (run s (CONNECT pl # es))) = dispatched (snd (run ?s0 es))"
    by (simp add: split_beta Let_def dispatched_append connect_dispatched)
  have r1: "retrying ?s1"
    using r0 assms(2) by (rule run_failure_retrying)
  have snoc: "fst (run s (CONNECT pl # es @ [x])) = fst (step ?s1 x)" for x
    using run_snoc_state [of s "CONNECT pl # es" x] st by simp
  have created: "ws < nextSocket ?s1"
    using assms(3) st by simp
  have "filter is_ReconnectAbandoned (dispatched (snd (run s (CONNECT pl # es)))) = []"
    using out run_failure_no_abandoned [OF r0 assms(2)] by simp
  moreover have "attemptCount (retrier (fst (run s (CONNECT pl # es @ [NativeClose ws ev]))))
           = Suc (attemptCount (retrier (fst (run s (CONNECT pl # es)))))"
    using snoc [of "NativeClose ws ev"] st close_retrying_count [OF r1 created] by simp
  moreover have "attemptCount (retrier (fst (run s (CONNECT pl # es))))
           \<le> attemptCount (retrier (fst (run s (CONNECT pl # es @ [e]))))"
    using snoc [of e] st failure_count_mono [OF assms(4)] by simp
  ultimately show ?thesis by blast
qed

text \<open>
  A fresh manager connects; its first socket closes, the retry fires, the second socket
  reports an error and closes: the scheduler has made three attempts and abandoned none.
\<close>

theorem forever_never_abandons_witness:
  "forever (retrier (constructor example_options))
   \<and> list_all failure_event
       [NativeClose 0 (CloseEvent 1006 ''refused''), RetryTimer, NativeError 1]
   \<and> 1 < nextSocket (fst (run (constructor example_options)
           (CONNECT example_payload
            # [NativeClose 0 (CloseEvent 1006 ''refused''), RetryTimer, NativeError 1])))
   \<and> failure_event AttemptTimer
   \<and> filter is_ReconnectAbandoned
       (dispatched (snd (run (constructor example_options)
          (CONNECT example_payload
           # [NativeClose 0 (CloseEvent 1006 ''refused''), RetryTimer, NativeError 1]))))
     = []
   \<and> attemptCount (retrier (fst (run (constructor example_options)
        (CONNECT example_payload
         # [NativeClose 0 (CloseEvent 1006 ''refused''), RetryTimer, NativeError 1]
           @ [NativeClose 1 (CloseEvent 1006 ''refused'')]))))
     = 3"
proof -
  have fv: "forever (retrier (constructor example_options))"
    by (simp add: constructor_def operation_def)
  have fe: "list_all failure_event
       [NativeClose 0 (CloseEvent 1006 ''refused''), RetryTimer, NativeError 1]"
    by simp
  have cr: "1 < nextSocket (fst (run (constructor example_options)
           (CONNECT example_payload
            # [NativeClose 0 (CloseEvent 1006 ''refused''), RetryTimer, NativeError 1])))"
    by (simp add: constructor_def operation_def example_options_def example_payload_def
        connect_def close_def reset_def attempt_def attempts_def reliablyConnect_def
        closeListener_def handleClose_def attemptReconnection_def retry_def exhausted_def
        retry_timer_def errorListener_def handleError_def Let_def split_beta)
  have ft: "failure_event AttemptTimer"
    by simp
  have cnt: "attemptCount (retrier (fst (run (constructor example_options)
           (CONNECT example_payload
            # [NativeClose 0 (CloseEvent 1006 ''refused''), RetryTimer, NativeError 1]))))
        = 2"
    by (simp add: constructor_def operation_def example_options_def example_payload_def
        connect_def close_def reset_def attempt_def attempts_def reliablyConnect_def
        closeListener_def handleClose_def attemptReconnection_def retry_def exhausted_def
        retry_timer_def errorListener_def handleError_def Let_def split_beta)
  show ?thesis
    using fv fe cr ft cnt
      forever_never_abandons [OF fv fe cr ft, of "CloseEvent 1006 ''refused''"]
    by simp
qed


section \<open>Opening\<close>

text \<open>
  Claim C2, as the code has it. On every native open event of a socket the manager
  created, the manager stops and then resets the retrier, then dispatches RECONNECTED if
  and only if \<open>hasOpened\<close> was true before that open, then calls the raw-socket hook with
  the socket it holds if the hook is configured and the manager holds a socket at that
  moment, then dispatches OPEN whatever \<open>hasOpened\<close> was, and leaves \<open>hasOpened\<close> true.
\<close>

theorem open_event_effects:
  "ws < nextSocket s \<Longrightarrow>
   step s (NativeOpen ws ev) =
     (s\<lparr> retrier := reset (stop (retrier s)), hasOpened := True \<rparr>,
      [Retrier RStop, Retrier RReset]
      @ (if hasOpened s then [Dispatch (Reconnected (prefix (options s)))] else [])
      @ (case onOpen (options s) of
           None \<Rightarrow> []
         | Some h \<Rightarrow> (case websocket s of None \<Rightarrow> [] | Some held \<Rightarrow> [OnOpen h held]))
      @ [Dispatch (Open ev (prefix (options s)))])"
  by (simp add: openListener_def handleOpen_def Let_def stop_def reset_def split: option.splits)

text \<open>
  Connect, open, close, retry, open again: the second open finds \<open>hasOpened\<close> true and
  the new socket held, so RECONNECTED, the hook and OPEN follow the two retrier calls.
\<close>

theorem open_event_effects_witness:
  "1 < nextSocket (fst (run (constructor example_options)
         [CONNECT example_payload, NativeOpen 0 OpenEvent,
          NativeClose 0 (CloseEvent 1006 ''lost''), RetryTimer]))
   \<and> snd (step (fst (run (constructor example_options)
              [CONNECT example_payload, NativeOpen 0 OpenEvent,
               NativeClose 0 (CloseEvent 1006 ''lost''), RetryTimer]))
            (NativeOpen 1 OpenEvent))
     = [Retrier RStop, Retrier RReset,
        Dispatch (Reconnected ''REDUX_WEBSOCKET''),
        OnOpen ''hook'' 1,
        Dispatch (Open OpenEvent ''REDUX_WEBSOCKET'')]
   \<and> hasOpened (fst (step (fst (run (constructor example_options)
              [CONNECT example_payload, NativeOpen 0 OpenEvent,
               NativeClose 0 (CloseEvent 1006 ''lost''), RetryTimer]))
            (NativeOpen 1 OpenEvent)))"
proof -
  let ?s = "fst (run (constructor example_options)
              [CONNECT example_payload, NativeOpen 0 OpenEvent,
               NativeClose 0 (CloseEvent 1006 ''lost''), RetryTimer])"
  have st: "nextSocket ?s = 2 \<and> hasOpened ?s \<and> websocket ?s = Some 1
            \<and> options ?s = example_options"
    by (simp add: constructor_def operation_def example_options_def example_payload_def
        connect_def close_def reset_def stop_def attempt_def attempts_def reliablyConnect_def
        openListener_def handleOpen_def closeListener_def handleClose_def
        attemptReconnection_def retry_def exhausted_def retry_timer_def Let_def split_beta)
  then have cr: "1 < nextSocket ?s"
    by simp
  show ?thesis
    using cr st open_event_effects [OF cr, of OpenEvent]
    by (simp add: example_options_def)
qed

text \<open>
  Against claim C2 as stated: a first connect command is replaced by a second one; the
  close of the replaced socket schedules a retry, which creates a third socket while the
  second is still connecting; a disconnect command releases the third. When the second
  socket, which the manager never closed, now opens, the hook is configured and yet not
  called: the manager holds no socket.
\<close>

theorem open_event_hook_counterexample:
  "onOpen (options (fst (run (constructor example_options)
       [CONNECT example_payload, CONNECT example_payload,
        NativeClose 0 (CloseEvent 1006 ''''), RetryTimer, DISCONNECT])))
     = Some ''hook''
   \<and> snd (step (fst (run (constructor example_options)
              [CONNECT example_payload, CONNECT example_payload,
               NativeClose 0 (CloseEvent 1006 ''''), RetryTimer, DISCONNECT]))
            (NativeOpen 1 OpenEvent))
     = [Retrier RStop, Retrier RReset, Dispatch (Open OpenEvent ''REDUX_WEBSOCKET'')]"
  by (simp add: constructor_def operation_def example_options_def example_payload_def
      connect_def close_def reset_def stop_def attempt_def attempts_def reliablyConnect_def
      disconnect_def openListener_def handleOpen_def closeListener_def handleClose_def
      attemptReconnection_def retry_def exhausted_def retry_timer_def code_or_def
      or_default_def Let_def split_beta)

section \<open>The \<open>hasOpened\<close> flag\<close>

text \<open>
  Claim C5. In every state and for every event, \<open>hasOpened\<close> goes from true to false
  exactly when the event is a deliberate close: the disconnect command, or a connect
  command that replaces a socket the manager holds. A deliberate close always leaves
  the flag false. A close event from a socket and the attempt timer firing leave the
  flag as it was.
\<close>

theorem hasOpened_cleared_by_deliberate_close:
  "((hasOpened s \<and> \<not> hasOpened (fst (step s e))) = (hasOpened s \<and> deliberate_close s e))
   \<and> (deliberate_close s e \<longrightarrow> \<not> hasOpened (fst (step s e)))
   \<and> hasOpened (fst (step s (NativeClose ws ev))) = hasOpened s
   \<and> hasOpened (fst (step s AttemptTimer)) = hasOpened s"
proof -
  have a: "(hasOpened s \<and> \<not> hasOpened (fst (step s e))) = (hasOpened s \<and> deliberate_close s e)"
    by (cases e)
       (auto simp: deliberate_close_def connect_def close_def reliablyConnect_def
          disconnect_def send_def closeListener_def handleClose_def attemptReconnection_def
          errorListener_def handleError_def openListener_def handleOpen_def
          messageListener_def handleMessage_def onTimeout_def Let_def split_beta
          split: option.splits prod.splits bool.splits)
  have b: "deliberate_close s e \<longrightarrow> \<not> hasOpened (fst (step s e))"
    by (cases e)
       (auto simp: deliberate_close_def connect_def close_def reliablyConnect_def
          disconnect_def Let_def split_beta split: option.splits)
  have c: "hasOpened (fst (step s (NativeClose ws ev))) = hasOpened s"
    by (simp add: closeListener_def handleClose_def attemptReconnection_def Let_def split_beta)
  have d: "hasOpened (fst (step s AttemptTimer)) = hasOpened s"
    by (simp add: onTimeout_def split: prod.splits bool.splits)
  from a b c d show ?thesis by blast
qed

text \<open>
  An open manager: the disconnect command and a replacing connect command clear the
  flag; the socket closing and the attempt timer do not.
\<close>

theorem hasOpened_cleared_by_deliberate_close_witness:
  "hasOpened (fst (run (constructor example_options) [CONNECT example_payload, NativeOpen 0 OpenEvent]))
   \<and> deliberate_close
       (fst (run (constructor example_options) [CONNECT example_payload, NativeOpen 0 OpenEvent]))
       DISCONNECT
   \<and> \<not> hasOpened (fst (step
         (fst (run (constructor example_options) [CONNECT example_payload, NativeOpen 0 OpenEvent]))
         DISCONNECT))
   \<and> deliberate_close
       (fst (run (constructor example_options) [CONNECT example_payload, NativeOpen 0 OpenEvent]))
       (CONNECT example_payload)
   \<and> \<not> hasOpened (fst (step
         (fst (run (constructor example_options) [CONNECT example_payload, NativeOpen 0 OpenEvent]))
         (CONNECT example_payload)))
   \<and> hasOpened (fst (step
         (fst (run (constructor example_options) [CONNECT example_payload, NativeOpen 0 OpenEvent]))
         (NativeClose 0 (CloseEvent 1006 ''lost''))))
   \<and> hasOpened (fst (step
         (fst (run (constructor example_options) [CONNECT example_payload, NativeOpen 0 OpenEvent]))
         AttemptTimer))"
proof -
  let ?s = "fst (run (constructor example_options) [CONNECT example_payload, NativeOpen 0 OpenEvent])"
  have st: "hasOpened ?s \<and> websocket ?s = Some 0"
    by (simp add: constructor_def operation_def example_options_def example_payload_def
        connect_def close_def reset_def stop_def attempt_def attempts_def reliablyConnect_def
        openListener_def handleOpen_def Let_def split_beta)
  then have dc: "deliberate_close ?s DISCONNECT \<and> deliberate_close ?s (CONNECT example_payload)"
    by (simp add: deliberate_close_def)
  show ?thesis
    using st dc
      hasOpened_cleared_by_deliberate_close [of ?s DISCONNECT 0 "CloseEvent 1006 ''lost''"]
      hasOpened_cleared_by_deliberate_close [of ?s "CONNECT example_payload" 0 "CloseEvent 1006 ''lost''"]
    by blast
qed


section \<open>The send command\<close>

text \<open>
  Claim C6. A send command with no socket held raises the invalid-state error; with a
  socket held and no serializer configured it raises the configuration error; otherwise
  it passes exactly the serializer's output for the payload to the socket's \<open>send\<close>. An
  error reaches the caller within the command itself, and in every case the manager
  after the command is the manager before it: nothing is queued.
\<close>

theorem send_command:
  "(websocket s = None \<longrightarrow> send s pl = Inl not_initialized)
   \<and> (websocket s = Some ws \<and> serializer (options s) = None \<longrightarrow> send s pl = Inl no_serializer)
   \<and> (websocket s = Some ws \<and> serializer (options s) = Some f \<longrightarrow>
        send s pl = Inr (s, [WsSend ws (f pl)]))
   \<and> (send s pl = Inl e \<longrightarrow> step s (SEND pl) = (s, [Throw e]))
   \<and> fst (step s (SEND pl)) = s
   \<and> not_initialized \<noteq> no_serializer"
  by (auto simp: send_def not_initialized_def no_serializer_def split: option.splits)

text \<open>
  The three cases: a send before any connect command; a send after a connect command
  with no serializer; a send after a successful open with a serializer.
\<close>

theorem send_command_witness:
  "websocket (constructor example_options) = None
   \<and> step (constructor example_options) (SEND (JStr ''hello''))
       = (constructor example_options, [Throw not_initialized])
   \<and> websocket (fst (connect (constructor example_options) example_payload)) = Some 0
   \<and> serializer (options (fst (connect (constructor example_options) example_payload))) = None
   \<and> step (fst (connect (constructor example_options) example_payload)) (SEND (JStr ''hello''))
       = (fst (connect (constructor example_options) example_payload), [Throw no_serializer])
   \<and> websocket (fst (run (constructor (example_options\<lparr> serializer := Some example_serializer \<rparr>))
                   [CONNECT example_payload, NativeOpen 0 OpenEvent])) = Some 0
   \<and> serializer (options (fst (run (constructor (example_options\<lparr> serializer := Some example_serializer \<rparr>))
                   [CONNECT example_payload, NativeOpen 0 OpenEvent]))) = Some example_serializer
   \<and> send (fst (run (constructor (example_options\<lparr> serializer := Some example_serializer \<rparr>))
                   [CONNECT example_payload, NativeOpen 0 OpenEvent])) (JStr ''hello'')
       = Inr (fst (run (constructor (example_options\<lparr> serializer := Some example_serializer \<rparr>))
                   [CONNECT example_payload, NativeOpen 0 OpenEvent]),
              [WsSend 0 ''hello''])"
proof -
  let ?a = "constructor example_options"
  let ?b = "fst (connect (constructor example_options) example_payload)"
  let ?c = "fst (run (constructor (example_options\<lparr> serializer := Some example_serializer \<rparr>))
                   [CONNECT example_payload, NativeOpen 0 OpenEvent])"
  have a: "websocket ?a = None"
    by (simp add: constructor_def)
  have b: "websocket ?b = Some 0 \<and> serializer (options ?b) = None"
    by (simp add: constructor_def operation_def example_options_def connect_def close_def
        reliablyConnect_def Let_def split_beta)
  have c: "websocket ?c = Some 0 \<and> serializer (options ?c) = Some example_serializer"
    by (simp add: constructor_def operation_def example_options_def connect_def close_def
        reliablyConnect_def openListener_def handleOpen_def Let_def split_beta)
  have x: "example_serializer (JStr ''hello'') = ''hello''"
    by simp
  show ?thesis
    using a b c x
      send_command [of ?a "JStr ''hello''" 0 example_serializer not_initialized]
      send_command [of ?b "JStr ''hello''" 0 example_serializer no_serializer]
      send_command [of ?c "JStr ''hello''" 0 example_serializer not_initialized]
    by simp
qed

section \<open>The disconnect command\<close>

lemma step_no_connect:
  "websocket s = None \<Longrightarrow> connectFn (retrier s) = None \<Longrightarrow> \<not> is_CONNECT e \<Longrightarrow>
   websocket (fst (step s e)) = None \<and> connectFn (retrier (fst (step s e))) = None"
  by (cases e)
     (auto simp: disconnect_def send_def closeListener_def handleClose_def
        attemptReconnection_def retry_def errorListener_def handleError_def openListener_def
        handleOpen_def stop_def reset_def messageListener_def handleMessage_def
        retry_timer_def attempt_timer_def onTimeout_def Let_def split_beta
        split: option.splits)

lemma run_no_connect:
  "websocket s = None \<Longrightarrow> connectFn (retrier s) = None \<Longrightarrow> \<not> list_ex is_CONNECT es \<Longrightarrow>
   websocket (fst (run s es)) = None"
  by (induction es arbitrary: s) (simp_all add: split_beta Let_def step_no_connect)

text \<open>
  Claim C7, as the code has it. The disconnect command fails if and only if the manager
  holds no socket when the command arrives, and the failure is the invalid-state error;
  a manager that never received a connect command holds none. Otherwise the command
  performs a deliberate close: it stops the retrier, closes the held socket with code
  1000 and the default reason, sets the socket to none and \<open>hasOpened\<close> to false. The
  deliberate close itself, called with a reason, closes the socket with code 1000 and
  the reason supplied.
\<close>

theorem disconnect_command:
  "((\<exists>e. disconnect s = Inl e) = (websocket s = None))
   \<and> (websocket s = None \<longrightarrow> disconnect s = Inl not_initialized)
   \<and> (websocket s = Some ws \<longrightarrow>
        disconnect s =
          Inr (s\<lparr> retrier := stop (retrier s), websocket := None, hasOpened := False \<rparr>,
               [Retrier RStop,
                WsClose ws 1000 ''WebSocket connection closed by redux-websocket.'']))
   \<and> (\<not> list_ex is_CONNECT es \<longrightarrow>
        disconnect (fst (run (constructor opts) es)) = Inl not_initialized)
   \<and> (websocket s = Some ws \<and> rsn \<noteq> [] \<longrightarrow>
        close s None (Some rsn) =
          (s\<lparr> retrier := stop (retrier s), websocket := None, hasOpened := False \<rparr>,
           [Retrier RStop, WsClose ws 1000 rsn]))"
proof -
  have "\<not> list_ex is_CONNECT es \<Longrightarrow> websocket (fst (run (constructor opts) es)) = None"
    by (rule run_no_connect) (simp_all add: constructor_def operation_def)
  then show ?thesis
    by (auto simp: disconnect_def close_def not_initialized_def code_or_def or_default_def
        split: option.splits)
qed

text \<open>
  A manager that saw events but no connect command fails to disconnect; a manager that
  is open disconnects, and the scheduler is stopped; the deliberate close passes a
  supplied reason on.
\<close>

theorem disconnect_command_witness:
  "websocket (constructor example_options) = None
   \<and> disconnect (constructor example_options) = Inl not_initialized
   \<and> \<not> list_ex is_CONNECT [SEND (JStr ''hello''), NativeOpen 0 OpenEvent, RetryTimer]
   \<and> disconnect (fst (run (constructor example_options)
        [SEND (JStr ''hello''), NativeOpen 0 OpenEvent, RetryTimer])) = Inl not_initialized
   \<and> websocket (fst (run (constructor example_options)
        [CONNECT example_payload, NativeOpen 0 OpenEvent])) = Some 0
   \<and> snd (step (fst (run (constructor example_options)
                   [CONNECT example_payload, NativeOpen 0 OpenEvent])) DISCONNECT)
       = [Retrier RStop, WsClose 0 1000 ''WebSocket connection closed by redux-websocket.'']
   \<and> state (retrier (fst (step (fst (run (constructor example_options)
                   [CONNECT example_payload, NativeOpen 0 OpenEvent])) DISCONNECT))) = Stopped
   \<and> ''going away'' \<noteq> []
   \<and> snd (close (fst (run (constructor example_options)
                    [CONNECT example_payload, NativeOpen 0 OpenEvent]))
             None (Some ''going away''))
       = [Retrier RStop, WsClose 0 1000 ''going away'']"
proof -
  let ?a = "constructor example_options"
  let ?c = "fst (run (constructor example_options)
                   [CONNECT example_payload, NativeOpen 0 OpenEvent])"
  have a: "websocket ?a = None"
    by (simp add: constructor_def)
  have n: "\<not> list_ex is_CONNECT [SEND (JStr ''hello''), NativeOpen 0 OpenEvent, RetryTimer]"
    by simp
  have c: "websocket ?c = Some 0"
    by (simp add: constructor_def operation_def example_options_def connect_def close_def
        reliablyConnect_def openListener_def handleOpen_def Let_def split_beta)
  have r: "''going away'' \<noteq> []"
    by simp
  show ?thesis
    using a n c r
      disconnect_command [of ?a 0 "[SEND (JStr ''hello''), NativeOpen 0 OpenEvent, RetryTimer]"
                            example_options "''going away''"]
      disconnect_command [of ?c 0 "[]" example_options "''going away''"]
    by (simp add: stop_def)
qed

text \<open>
  Against claim C7 as stated. This manager received a connect command, and its second
  disconnect command fails all the same, the first having released the socket. And the
  close event that the deliberately closed socket then delivers runs
  \<open>attemptReconnection\<close>: the close listener is still registered, \<open>retrier.retry\<close> is
  called, and with the retrier stopped the reconnection is declared abandoned.
\<close>

theorem disconnect_claim_counterexample:
  "list_ex is_CONNECT [CONNECT example_payload, DISCONNECT]
   \<and> disconnect (fst (run (constructor example_options) [CONNECT example_payload, DISCONNECT]))
       = Inl (Error ''Socket connection not initialized. Dispatch WEBSOCKET_CONNECT first'')
   \<and> snd (step (fst (run (constructor example_options) [CONNECT example_payload, DISCONNECT]))
            (NativeClose 0
               (CloseEvent 1000 ''WebSocket connection closed by redux-websocket.'')))
       = [Dispatch (Closed (CloseEvent 1000 ''WebSocket connection closed by redux-websocket.'')
                      ''REDUX_WEBSOCKET''),
          Retrier (RRetry (Error
            ''Websocket closed: WebSocket connection closed by redux-websocket.'')),
          Dispatch (ReconnectAbandoned ''REDUX_WEBSOCKET'')]"
  by (simp add: constructor_def operation_def example_options_def example_payload_def
      connect_def close_def reset_def stop_def attempt_def attempts_def reliablyConnect_def
      disconnect_def closeListener_def handleClose_def attemptReconnection_def retry_def
      code_or_def or_default_def Let_def split_beta)

section \<open>The first retry of a refused connection\<close>

text \<open>
  Claim C8, as the code has it. A fresh manager receives connect("wss://x"); the socket
  closes with reason "refused"; the scheduled retry fires. The close dispatches CLOSED
  and then BROKEN; the second connect attempt dispatches BEGIN_RECONNECT and then
  RECONNECT_ATTEMPT with count 1, and opens a second socket to the same URL.
\<close>

theorem refused_then_retry:
  "snd (run (constructor opts)
          [CONNECT \<lparr> url = ''wss://x'', protocols = None \<rparr>,
           NativeClose 0 (CloseEvent c ''refused''), RetryTimer])
     = [ConsoleLog ''Top of connect'', Retrier RReset, Retrier (RAttempt 3000),
        NewWebSocket 0 ''wss://x'' None,
        Dispatch (Closed (CloseEvent c ''refused'') (prefix opts)),
        Retrier (RRetry (Error ''Websocket closed: refused'')),
        Dispatch (Broken (prefix opts)),
        Dispatch (BeginReconnect (prefix opts)),
        Dispatch (ReconnectAttempt 1 (prefix opts)),
        NewWebSocket 1 ''wss://x'' None]
   \<and> dispatched (snd (run (constructor opts)
          [CONNECT \<lparr> url = ''wss://x'', protocols = None \<rparr>,
           NativeClose 0 (CloseEvent c ''refused''), RetryTimer]))
     = [Closed (CloseEvent c ''refused'') (prefix opts), Broken (prefix opts),
        BeginReconnect (prefix opts), ReconnectAttempt 1 (prefix opts)]"
  by (simp add: constructor_def operation_def connect_def close_def reset_def attempt_def
        attempts_def reliablyConnect_def closeListener_def handleClose_def
        attemptReconnection_def retry_def exhausted_def retry_timer_def Let_def split_beta)

theorem refused_then_retry_witness:
  "precedes (Broken ''REDUX_WEBSOCKET'') (BeginReconnect ''REDUX_WEBSOCKET'')
     (dispatched (snd (run (constructor example_options)
          [CONNECT \<lparr> url = ''wss://x'', protocols = None \<rparr>,
           NativeClose 0 (CloseEvent 1006 ''refused''), RetryTimer])))
   \<and> precedes (BeginReconnect ''REDUX_WEBSOCKET'') (ReconnectAttempt 1 ''REDUX_WEBSOCKET'')
     (dispatched (snd (run (constructor example_options)
          [CONNECT \<lparr> url = ''wss://x'', protocols = None \<rparr>,
           NativeClose 0 (CloseEvent 1006 ''refused''), RetryTimer])))"
  using refused_then_retry [of example_options 1006]
  by (simp add: example_options_def)

text \<open>
  Against claim C8 as stated: RECONNECT_ATTEMPT does not come before BEGIN_RECONNECT in
  that run; it is the last notification of the four.
\<close>

theorem refused_then_retry_order_counterexample:
  "\<not> precedes (ReconnectAttempt 1 ''REDUX_WEBSOCKET'') (BeginReconnect ''REDUX_WEBSOCKET'')
       (dispatched (snd (run (constructor example_options)
          [CONNECT \<lparr> url = ''wss://x'', protocols = None \<rparr>,
           NativeClose 0 (CloseEvent 1006 ''refused''), RetryTimer])))
   \<and> dispatched (snd (run (constructor example_options)
          [CONNECT \<lparr> url = ''wss://x'', protocols = None \<rparr>,
           NativeClose 0 (CloseEvent 1006 ''refused''), RetryTimer]))
     = [Closed (CloseEvent 1006 ''refused'') ''REDUX_WEBSOCKET'',
        Broken ''REDUX_WEBSOCKET'',
        BeginReconnect ''REDUX_WEBSOCKET'',
        ReconnectAttempt 1 ''REDUX_WEBSOCKET'']"
  by (simp add: constructor_def operation_def example_options_def connect_def close_def
        reset_def attempt_def attempts_def reliablyConnect_def closeListener_def
        handleClose_def attemptReconnection_def retry_def exhausted_def retry_timer_def
        Let_def split_beta)

section \<open>The type of an action\<close>

text \<open>
  Claim C9, as the code has it. The creators of the actions a user dispatches
  (\<open>connect\<close>, \<open>disconnect\<close>, \<open>send\<close>) compose the type as the default prefix, \<open>::\<close> and the
  event name when no prefix argument is given. The creators of the actions the library
  dispatches have no default: they compose the type from the prefix argument as it is
  given, and with the argument left out the prefix part is the text \<open>undefined\<close>.
\<close>

theorem action_type_prefix:
  "type (connect_002 T u st NoRest now) = DEFAULT_PREFIX T @ ''::'' @ WEBSOCKET_CONNECT T
   \<and> type (connect_002 T u st (WithProtocols ps None) now)
       = DEFAULT_PREFIX T @ ''::'' @ WEBSOCKET_CONNECT T
   \<and> type (disconnect_002 T st None now) = DEFAULT_PREFIX T @ ''::'' @ WEBSOCKET_DISCONNECT T
   \<and> type (send_002 T msg st None now) = DEFAULT_PREFIX T @ ''::'' @ WEBSOCKET_SEND T
   \<and> type (beginReconnect_002 T st pfx now) = template pfx @ ''::'' @ WEBSOCKET_BEGIN_RECONNECT T
   \<and> type (reconnectAttempt_002 T n st pfx now)
       = template pfx @ ''::'' @ WEBSOCKET_RECONNECT_ATTEMPT T
   \<and> type (reconnected_002 T st pfx now) = template pfx @ ''::'' @ WEBSOCKET_RECONNECTED T
   \<and> type (open_002 T ev st pfx now) = template pfx @ ''::'' @ WEBSOCKET_OPEN T
   \<and> type (broken_002 T st pfx now) = template pfx @ ''::'' @ WEBSOCKET_BROKEN T
   \<and> type (closed_002 T ev st pfx now) = template pfx @ ''::'' @ WEBSOCKET_CLOSED T
   \<and> type (message_002 T ev st pfx now) = template pfx @ ''::'' @ WEBSOCKET_MESSAGE T
   \<and> type (error_002 T oa err st pfx now) = template pfx @ ''::'' @ WEBSOCKET_ERROR T
   \<and> template None = ''undefined''
   \<and> template (Some p) = p"
  by (simp add: connect_002_def disconnect_002_def send_002_def beginReconnect_002_def
      reconnectAttempt_002_def reconnected_002_def open_002_def broken_002_def closed_002_def
      message_002_def error_002_def buildAction_002_def or_default_def template_def Let_def)

theorem action_type_prefix_witness:
  "type (connect_002 example_actionTypes ''wss://x'' False NoRest 0) = ''REDUX_WEBSOCKET::CONNECT''
   \<and> type (send_002 example_actionTypes (JStr ''hello'') False None 0) = ''REDUX_WEBSOCKET::SEND''
   \<and> type (broken_002 example_actionTypes False (Some ''CHAT'') 0) = ''CHAT::BROKEN''
   \<and> type (broken_002 example_actionTypes False None 0) = ''undefined::BROKEN''"
  using action_type_prefix [of example_actionTypes "''wss://x''" False 0 "[]" "JStr ''hello''"
          "Some ''CHAT''" 0 JNull JNull "(''Error'', ''x'')" "''CHAT''"]
        action_type_prefix [of example_actionTypes "''wss://x''" False 0 "[]" "JStr ''hello''"
          None 0 JNull JNull "(''Error'', ''x'')" "''CHAT''"]
  by (simp add: example_actionTypes_def template_def)

text \<open>
  Against claim C9 as stated: \<open>beginReconnect\<close> called with no prefix argument does not
  compose its type with the default prefix.
\<close>

theorem beginReconnect_no_default_counterexample:
  "type (beginReconnect_002 example_actionTypes False None 0) = ''undefined::BEGIN_RECONNECT''
   \<and> DEFAULT_PREFIX example_actionTypes @ ''::'' @ WEBSOCKET_BEGIN_RECONNECT example_actionTypes
       = ''REDUX_WEBSOCKET::BEGIN_RECONNECT''
   \<and> type (beginReconnect_002 example_actionTypes False None 0)
       \<noteq> DEFAULT_PREFIX example_actionTypes @ ''::''
           @ WEBSOCKET_BEGIN_RECONNECT example_actionTypes"
  by (simp add: beginReconnect_002_def buildAction_002_def template_def example_actionTypes_def
      Let_def)

section \<open>The two versions of the action creators\<close>

lemma buildAction_versions: "buildAction_000 = buildAction_002"
  by (intro ext) (simp add: buildAction_000_def buildAction_002_def)

lemma isProtocols_versions: "isProtocols_000 = isProtocols_002"
proof
  fix a
  show "isProtocols_000 a = isProtocols_002 a"
    by (cases a) simp_all
qed

text \<open>
  Claim C10. Every exported action creator of the first version returns, on every input
  and for the same time read from the clock, the action that the creator of the same
  name in the second version returns.
\<close>

theorem action_creators_versions_agree:
  "connect_000 T u st args now = connect_002 T u st args now
   \<and> disconnect_000 T st pfx now = disconnect_002 T st pfx now
   \<and> send_000 T msg st pfx now = send_002 T msg st pfx now
   \<and> beginReconnect_000 T st pfx now = beginReconnect_002 T st pfx now
   \<and> reconnectAttempt_000 T n st pfx now = reconnectAttempt_002 T n st pfx now
   \<and> reconnected_000 T st pfx now = reconnected_002 T st pfx now
   \<and> open_000 T ev st pfx now = open_002 T ev st pfx now
   \<and> broken_000 T st pfx now = broken_002 T st pfx now
   \<and> closed_000 T ev st pfx now = closed_002 T ev st pfx now
   \<and> message_000 T ev st pfx now = message_002 T ev st pfx now
   \<and> error_000 T oa err st pfx now = error_002 T oa err st pfx now"
  by (simp add: connect_000_def connect_002_def disconnect_000_def disconnect_002_def
      send_000_def send_002_def beginReconnect_000_def beginReconnect_002_def
      reconnectAttempt_000_def reconnectAttempt_002_def reconnected_000_def
      reconnected_002_def open_000_def open_002_def broken_000_def broken_002_def
      closed_000_def closed_002_def message_000_def message_002_def error_000_def
      error_002_def buildAction_versions isProtocols_versions)

theorem action_creators_versions_agree_witness:
  "connect_000 example_actionTypes ''wss://x'' True (WithProtocols [''chat''] (Some ''CHAT'')) 7
     = connect_002 example_actionTypes ''wss://x'' True (WithProtocols [''chat''] (Some ''CHAT'')) 7
   \<and> connect_002 example_actionTypes ''wss://x'' True (WithProtocols [''chat''] (Some ''CHAT'')) 7
     = \<lparr> type = ''CHAT::CONNECT'',
         meta = [(''timestamp'', JDateJSON 7)],
         error = None,
         payload = Some (JObject [(''url'', JStr ''wss://x''),
                                  (''protocols'', JArray [JStr ''chat''])]) \<rparr>
   \<and> error_000 example_actionTypes JNull (''Error'', ''boom'') False (Some ''CHAT'') 7
     = error_002 example_actionTypes JNull (''Error'', ''boom'') False (Some ''CHAT'') 7
   \<and> error_002 example_actionTypes JNull (''Error'', ''boom'') False (Some ''CHAT'') 7
     = \<lparr> type = ''CHAT::ERROR'',
         meta = [(''timestamp'', JDate 7), (''message'', JStr ''boom''),
                 (''name'', JStr ''Error''), (''originalAction'', JNull)],
         error = Some True,
         payload = Some (JError ''Error'' ''boom'') \<rparr>"
  using action_creators_versions_agree
          [of example_actionTypes "''wss://x''" True "WithProtocols [''chat''] (Some ''CHAT'')" 7]
        action_creators_versions_agree
          [of example_actionTypes "''wss://x''" False NoRest 7 "Some ''CHAT''" JNull 0 JNull JNull
              "(''Error'', ''boom'')"]
  by (simp add: connect_002_def error_002_def buildAction_002_def example_actionTypes_def
      or_default_def template_def spread_def Let_def)

end
